theory Spec2Isabelle
  imports Complex_Main "HOL-Library.Sublist"
begin

section \<open>Data model\<close>

text \<open>
  The \<open>Coin\<close> interface of \<open>coinService.ts\<close>. Optional fields (\<open>description?\<close>,
  \<open>soldPrice?\<close>, ...) are options, \<open>None\<close> standing for \<open>undefined\<close>. A \<open>Date\<close> is its
  epoch time in milliseconds. The fields \<open>id\<close> and \<open>image\<close> carry a suffix, since HOL
  already has constants of these names.

  The non-identifier fields are a record of their own, which \<open>coin\<close> extends by the
  identifier. The argument of \<open>addCoin\<close> has the type \<open>Omit<Coin, 'id'>\<close>, which at run
  time is an object with these fields that may still carry an \<open>id\<close> property:
  \<open>coin_input\<close> extends the fields by that property, \<open>None\<close> when it is absent.
\<close>

type_synonym date = int

record coin_fields =
  name :: string
  image_coin :: string
  acquisitionDate :: string
  purchasePrice :: real
  currentValue :: real
  roi :: real
  description :: "string option"
  grade :: "string option"
  mint :: "string option"
  year :: "real option"
  isSold :: bool
  soldPrice :: "real option"
  soldDate :: "date option"

record coin = coin_fields +
  id_coin :: string

record coin_input = coin_fields +
  id_carried :: "string option"

section \<open>Numbers\<close>

text \<open>
  A JavaScript \<open>number\<close> is idealised as a real: rounding is not modelled. What is
  modelled is the result of an arithmetic operation that is no real number: \<open>NaN\<close> and
  the two infinities are the one value \<open>NonFinite\<close>. Sums, differences and products
  with a non-finite operand are non-finite (\<open>Infinity * 0\<close> and \<open>Infinity - Infinity\<close>
  are \<open>NaN\<close>). Every divisor of the aggregator is a field of a coin or a sum of such
  fields, hence a real; dividing by zero gives \<open>NaN\<close> or an infinity.
\<close>

datatype jsnum = Fin real | NonFinite

fun jadd :: "jsnum \<Rightarrow> jsnum \<Rightarrow> jsnum" where
  "jadd (Fin x) (Fin y) = Fin (x + y)"
| "jadd _ _ = NonFinite"

fun jsub :: "jsnum \<Rightarrow> jsnum \<Rightarrow> jsnum" where
  "jsub (Fin x) (Fin y) = Fin (x - y)"
| "jsub _ _ = NonFinite"

fun jmul :: "jsnum \<Rightarrow> jsnum \<Rightarrow> jsnum" where
  "jmul (Fin x) (Fin y) = Fin (x * y)"
| "jmul _ _ = NonFinite"

fun jdiv :: "jsnum \<Rightarrow> real \<Rightarrow> jsnum" where
  "jdiv (Fin x) y = (if y = 0 then NonFinite else Fin (x / y))"
| "jdiv NonFinite y = NonFinite"

text \<open>
  \<open>coin.soldPrice!\<close>: the non-null assertion has no effect at run time, and
  \<open>undefined\<close> in arithmetic is \<open>NaN\<close>.
\<close>

fun bang :: "real option \<Rightarrow> jsnum" where
  "bang (Some x) = Fin x"
| "bang None = NonFinite"

text \<open>
  The truth value of an optional number, as in \<open>coin.isSold && coin.soldPrice\<close>:
  \<open>undefined\<close> and \<open>0\<close> are falsy.
\<close>

fun truthy :: "real option \<Rightarrow> bool" where
  "truthy None = False"
| "truthy (Some x) = (x \<noteq> 0)"

section \<open>Portfolio aggregator\<close>

text \<open>
  The computations in the body of \<open>PortfolioSummary\<close>, under the names of its
  constants. \<open>xs.reduce(f, z)\<close> is \<open>foldl f z xs\<close>. The property \<open>cashReserves\<close> is
  optional and defaults to 50000.
\<close>

definition activeCoins :: "coin list \<Rightarrow> coin list" where
  "activeCoins coins = filter (\<lambda>coin. \<not> isSold coin) coins"

definition soldCoins :: "coin list \<Rightarrow> coin list" where
  "soldCoins coins = filter (\<lambda>coin. isSold coin \<and> truthy (soldPrice coin)) coins"

definition activeCoinsValue :: "coin list \<Rightarrow> real" where
  "activeCoinsValue coins =
     foldl (\<lambda>sum coin. sum + currentValue coin) 0 (filter (\<lambda>coin. \<not> isSold coin) coins)"

definition soldCoinsProfit :: "coin list \<Rightarrow> jsnum" where
  "soldCoinsProfit coins =
     foldl (\<lambda>sum coin. jadd sum (jsub (bang (soldPrice coin)) (Fin (purchasePrice coin))))
       (Fin 0) (filter (\<lambda>coin. isSold coin \<and> truthy (soldPrice coin)) coins)"

definition cashOrDefault :: "real option \<Rightarrow> real" where
  "cashOrDefault cashReserves = (case cashReserves of None \<Rightarrow> 50000 | Some c \<Rightarrow> c)"

definition totalValue :: "real option \<Rightarrow> coin list \<Rightarrow> jsnum" where
  "totalValue cashReserves coins =
     jadd (jadd (Fin (cashOrDefault cashReserves)) (Fin (activeCoinsValue coins)))
       (soldCoinsProfit coins)"

definition activeCoinsROI :: "coin list \<Rightarrow> jsnum" where
  "activeCoinsROI coins =
     (if length (activeCoins coins) > 0
      then jdiv (Fin (foldl (\<lambda>sum coin. sum + roi coin * currentValue coin) 0 (activeCoins coins)))
             (foldl (\<lambda>sum coin. sum + currentValue coin) 0 (activeCoins coins))
      else Fin 0)"

definition coinROI :: "coin \<Rightarrow> jsnum" where
  "coinROI coin =
     jmul (jdiv (jsub (bang (soldPrice coin)) (Fin (purchasePrice coin))) (purchasePrice coin))
       (Fin 100)"

definition soldCoinsROI :: "coin list \<Rightarrow> jsnum" where
  "soldCoinsROI coins =
     (if length (soldCoins coins) > 0
      then jdiv (foldl (\<lambda>sum coin. jadd sum (jmul (coinROI coin) (Fin (purchasePrice coin))))
                   (Fin 0) (soldCoins coins))
             (foldl (\<lambda>sum coin. sum + purchasePrice coin) 0 (soldCoins coins))
      else Fin 0)"

definition totalActiveValue :: "coin list \<Rightarrow> real" where
  "totalActiveValue coins = foldl (\<lambda>sum coin. sum + currentValue coin) 0 (activeCoins coins)"

definition totalSoldValue :: "coin list \<Rightarrow> real" where
  "totalSoldValue coins = foldl (\<lambda>sum coin. sum + purchasePrice coin) 0 (soldCoins coins)"

definition totalInvestmentValue :: "coin list \<Rightarrow> real" where
  "totalInvestmentValue coins = totalActiveValue coins + totalSoldValue coins"

definition totalROI :: "coin list \<Rightarrow> jsnum" where
  "totalROI coins =
     (if totalInvestmentValue coins > 0
      then jdiv (jadd (jmul (activeCoinsROI coins) (Fin (totalActiveValue coins)))
                      (jmul (soldCoinsROI coins) (Fin (totalSoldValue coins))))
             (totalInvestmentValue coins)
      else Fin 0)"

text \<open>
  Following the spec's words, for comparison with \<open>totalROI\<close>: the single weighted
  average over all coins' individual ROI contributions. An active coin
  (\<open>isSold = false\<close>) contributes its \<open>roi\<close> with weight \<open>currentValue\<close>; a sold coin
  (\<open>isSold = true\<close> and \<open>soldPrice\<close> defined) contributes
  \<open>(soldPrice - purchasePrice) / purchasePrice * 100\<close> with weight \<open>purchasePrice\<close>;
  the average is 0 when the total weight is zero.
\<close>

definition specWeight :: "coin \<Rightarrow> real" where
  "specWeight coin =
     (if \<not> isSold coin then currentValue coin
      else if soldPrice coin \<noteq> None then purchasePrice coin
      else 0)"

definition specContribution :: "coin \<Rightarrow> jsnum" where
  "specContribution coin =
     (if \<not> isSold coin then Fin (roi coin * currentValue coin)
      else if soldPrice coin \<noteq> None then jmul (coinROI coin) (Fin (purchasePrice coin))
      else Fin 0)"

definition singlePassROI :: "coin list \<Rightarrow> jsnum" where
  "singlePassROI coins =
     (if foldl (\<lambda>sum coin. sum + specWeight coin) 0 coins = 0 then Fin 0
      else jdiv (foldl (\<lambda>sum coin. jadd sum (specContribution coin)) (Fin 0) coins)
             (foldl (\<lambda>sum coin. sum + specWeight coin) 0 coins))"

text \<open>
  The closed forms that the folds of the aggregator are compared with: the profit of a
  sold coin, and the ROI of a coin times its weight.
\<close>

definition profitOf :: "coin \<Rightarrow> real" where
  "profitOf coin = (case soldPrice coin of Some p \<Rightarrow> p - purchasePrice coin | None \<Rightarrow> 0)"

definition roiTimesWeight :: "coin \<Rightarrow> real" where
  "roiTimesWeight coin =
     (if \<not> isSold coin then roi coin * currentValue coin
      else (case soldPrice coin of
              Some p \<Rightarrow> (p - purchasePrice coin) / purchasePrice coin * 100 * purchasePrice coin
            | None \<Rightarrow> 0))"

section \<open>Collection store, local strategy\<close>

text \<open>
  The module state of the \<open>localStorage\<close> variant of \<open>coinService.ts\<close>.

  \<^item> \<open>mockDatabase\<close> is the in-memory mirror. It is declared \<open>Coin[]\<close>, but it is assigned
    what \<open>JSON.parse\<close> returns, unchecked: it holds a coin array or a JSON value that
    is no array (\<open>null\<close>, a number, an object), which is kept by its text.
  \<^item> \<open>apex_coins\<close> is the \<open>localStorage\<close> slot under the key of that name, \<open>None\<close> when
    the key is absent.
  \<^item> \<open>hasWindow\<close> says whether \<open>window\<close> is defined, \<open>storageDenied\<close> whether the browser
    refuses access to \<open>localStorage\<close>: every access then throws a \<open>SecurityError\<close>.
  \<^item> \<open>calls\<close> lists the arguments of the invocations of the subscriber's \<open>onUpdate\<close>
    callback, oldest first; \<open>intervals\<close> holds the identifiers of the running interval
    timers, \<open>nextInterval\<close> the identifier that \<open>setInterval\<close> gives out next.

  \<open>JSON.stringify\<close> and \<open>JSON.parse\<close> are parameters of the operations that use them;
  \<open>parse\<close> gives \<open>None\<close> where \<open>JSON.parse\<close> throws. The elements of a parsed array are
  taken to be coins.

  An operation returns what it returns or the fault it throws, together with the state
  it leaves behind: statements before a \<open>throw\<close> have had their effect.
\<close>

datatype fault = SecurityError | TypeError | StorageFault

datatype jsvalue = CoinArray "coin list" | NotArray string

record store =
  mockDatabase :: jsvalue
  apex_coins :: "string option"
  hasWindow :: bool
  storageDenied :: bool
  calls :: "jsvalue list"
  intervals :: "nat list"
  nextInterval :: nat

type_synonym 'a outcome = "(fault + 'a) \<times> store"

definition getItem :: "store \<Rightarrow> fault + string option" where
  "getItem st = (if storageDenied st then Inl SecurityError else Inr (apex_coins st))"

definition setItem :: "string \<Rightarrow> store \<Rightarrow> unit outcome" where
  "setItem text st =
     (if storageDenied st then (Inl SecurityError, st)
      else (Inr (), st\<lparr>apex_coins := Some text\<rparr>))"

text \<open>
  \<open>initializeDatabase\<close>: the call of \<open>getItem\<close> stands outside the \<open>try\<close> block, so its
  fault is thrown on; only a fault of \<open>JSON.parse\<close> is caught. The empty text is falsy.
\<close>

definition initializeDatabase :: "(string \<Rightarrow> jsvalue option) \<Rightarrow> store \<Rightarrow> fault + jsvalue" where
  "initializeDatabase parse st =
     (if hasWindow st then
        (case getItem st of
           Inl e \<Rightarrow> Inl e
         | Inr None \<Rightarrow> Inr (CoinArray [])
         | Inr (Some storedCoins) \<Rightarrow>
             if storedCoins \<noteq> [] then
               (case parse storedCoins of
                  Some v \<Rightarrow> Inr v
                | None \<Rightarrow> Inr (CoinArray []))
             else Inr (CoinArray []))
      else Inr (CoinArray []))"

definition saveToLocalStorage :: "(jsvalue \<Rightarrow> string) \<Rightarrow> jsvalue \<Rightarrow> store \<Rightarrow> unit outcome" where
  "saveToLocalStorage stringify coins st =
     (if hasWindow st then setItem (stringify coins) st else (Inr (), st))"

definition getAllCoins :: "(string \<Rightarrow> jsvalue option) \<Rightarrow> store \<Rightarrow> jsvalue outcome" where
  "getAllCoins parse st =
     (case initializeDatabase parse st of
        Inl e \<Rightarrow> (Inl e, st)
      | Inr v \<Rightarrow> (Inr v, st\<lparr>mockDatabase := v\<rparr>))"

text \<open>
  \<open>Date.now().toString()\<close>: the clock is a parameter, written in decimal digits.
  \<open>fromString\<close> reads decimal digits back.
\<close>

definition digitChar :: "nat \<Rightarrow> char" where
  "digitChar d = ''0123456789'' ! d"

fun toString :: "nat \<Rightarrow> string" where
  "toString n =
     (if n < 10 then [digitChar n]
      else toString (n div 10) @ [digitChar (n mod 10)])"

declare toString.simps [simp del]

definition digitValue :: "char \<Rightarrow> nat" where
  "digitValue c = length (takeWhile (\<lambda>d. d \<noteq> c) ''0123456789'')"

definition fromString :: "string \<Rightarrow> nat" where
  "fromString s = foldl (\<lambda>a c. 10 * a + digitValue c) 0 s"

text \<open>
  \<open>addCoin\<close>: the spread \<open>{...coin, id: Date.now().toString()}\<close> copies the fields of the
  input and sets the identifier, over the one the input may carry. \<open>push\<close> on a mirror
  that is no array throws a \<open>TypeError\<close>.
\<close>

definition addCoin :: "(jsvalue \<Rightarrow> string) \<Rightarrow> nat \<Rightarrow> coin_input \<Rightarrow> store \<Rightarrow> coin outcome" where
  "addCoin stringify now coin st =
     (let newCoin = \<lparr>name = name coin, image_coin = image_coin coin,
            acquisitionDate = acquisitionDate coin, purchasePrice = purchasePrice coin,
            currentValue = currentValue coin, roi = roi coin,
            description = description coin, grade = grade coin, mint = mint coin,
            year = year coin, isSold = isSold coin, soldPrice = soldPrice coin,
            soldDate = soldDate coin, id_coin = toString now\<rparr>
      in case mockDatabase st of
           NotArray t \<Rightarrow> (Inl TypeError, st)
         | CoinArray db \<Rightarrow>
             (let st1 = st\<lparr>mockDatabase := CoinArray (db @ [newCoin])\<rparr>
              in case saveToLocalStorage stringify (mockDatabase st1) st1 of
                   (Inl e, st2) \<Rightarrow> (Inl e, st2)
                 | (Inr u, st2) \<Rightarrow> (Inr newCoin, st2)))"

text \<open>\<open>Array.prototype.findIndex\<close>: the first index where the test holds, or \<open>-1\<close>.\<close>

fun findIndex :: "('a \<Rightarrow> bool) \<Rightarrow> 'a list \<Rightarrow> int" where
  "findIndex p [] = - 1"
| "findIndex p (x # xs) =
     (if p x then 0 else (let i = findIndex p xs in if i = - 1 then - 1 else i + 1))"

definition updateCoin :: "(jsvalue \<Rightarrow> string) \<Rightarrow> coin \<Rightarrow> store \<Rightarrow> coin outcome" where
  "updateCoin stringify coin st =
     (case mockDatabase st of
        NotArray t \<Rightarrow> (Inl TypeError, st)
      | CoinArray db \<Rightarrow>
          (let index = findIndex (\<lambda>c. id_coin c = id_coin coin) db
           in if index \<noteq> - 1 then
                (let st1 = st\<lparr>mockDatabase := CoinArray (db[nat index := coin])\<rparr>
                 in case saveToLocalStorage stringify (mockDatabase st1) st1 of
                      (Inl e, st2) \<Rightarrow> (Inl e, st2)
                    | (Inr u, st2) \<Rightarrow> (Inr coin, st2))
              else (Inr coin, st)))"

definition deleteCoin :: "(jsvalue \<Rightarrow> string) \<Rightarrow> string \<Rightarrow> store \<Rightarrow> unit outcome" where
  "deleteCoin stringify coinId st =
     (case mockDatabase st of
        NotArray t \<Rightarrow> (Inl TypeError, st)
      | CoinArray db \<Rightarrow>
          (let st1 = st\<lparr>mockDatabase := CoinArray (filter (\<lambda>coin. id_coin coin \<noteq> coinId) db)\<rparr>
           in saveToLocalStorage stringify (mockDatabase st1) st1))"

text \<open>
  \<open>subscribeToCoinsUpdates\<close> calls \<open>onUpdate\<close> with the mirror, then starts the interval
  timer and returns its identifier in the handle. \<open>pollTick\<close> is the function given to
  \<open>setInterval\<close>. \<open>intervalElapsed\<close> is what happens each time the interval of a timer
  elapses: the function runs if the timer is still registered, and a fault it throws is
  reported by the runtime and goes no further. The length of the interval is not
  modelled. \<open>unsubscribeFromCoinsUpdates\<close> clears the timer of the handle.
\<close>

definition subscribeToCoinsUpdates :: "store \<Rightarrow> nat \<times> store" where
  "subscribeToCoinsUpdates st =
     (let st1 = st\<lparr>calls := calls st @ [mockDatabase st]\<rparr>;
          intervalId = nextInterval st1;
          st2 = st1\<lparr>intervals := intervalId # intervals st1, nextInterval := Suc intervalId\<rparr>
      in (intervalId, st2))"

definition pollTick ::
  "(jsvalue \<Rightarrow> string) \<Rightarrow> (string \<Rightarrow> jsvalue option) \<Rightarrow> store \<Rightarrow> unit outcome" where
  "pollTick stringify parse st =
     (case initializeDatabase parse st of
        Inl e \<Rightarrow> (Inl e, st)
      | Inr storedCoins \<Rightarrow>
          if stringify storedCoins \<noteq> stringify (mockDatabase st) then
            (let st1 = st\<lparr>mockDatabase := storedCoins\<rparr>
             in (Inr (), st1\<lparr>calls := calls st1 @ [mockDatabase st1]\<rparr>))
          else (Inr (), st))"

definition intervalElapsed ::
  "(jsvalue \<Rightarrow> string) \<Rightarrow> (string \<Rightarrow> jsvalue option) \<Rightarrow> nat \<Rightarrow> store \<Rightarrow> store" where
  "intervalElapsed stringify parse intervalId st =
     (if intervalId \<in> set (intervals st) then snd (pollTick stringify parse st) else st)"

definition unsubscribeFromCoinsUpdates :: "nat \<Rightarrow> store \<Rightarrow> store" where
  "unsubscribeFromCoinsUpdates intervalId st =
     st\<lparr>intervals := filter (\<lambda>i. i \<noteq> intervalId) (intervals st)\<rparr>"

section \<open>Collection store, remote strategy\<close>

text \<open>
  The Firestore variant of \<open>coinService.ts\<close>. Firestore is a library outside the
  repository: the outcome of each of its calls is a parameter, a fault when the call
  throws. A document is its key and its data. The data of a coin document has the
  fields of a coin, where \<open>isSold\<close> may be missing and \<open>soldDate\<close> is \<open>null\<close>, a
  Firestore timestamp, or some other value, which has no method \<open>toDate\<close>; it may also
  have a field \<open>id\<close> of its own, which is not the key of the document.
\<close>

datatype fs_date = Null | Timestamp date | NotATimestamp

record doc_data =
  d_name :: string
  d_image :: string
  d_acquisitionDate :: string
  d_purchasePrice :: real
  d_currentValue :: real
  d_roi :: real
  d_description :: "string option"
  d_grade :: "string option"
  d_mint :: "string option"
  d_year :: "real option"
  d_isSold :: "bool option"
  d_soldPrice :: "real option"
  d_soldDate :: fs_date
  d_id :: "string option"

type_synonym document = "string \<times> doc_data"

text \<open>\<open>convertToCoin\<close> takes the identifier from the key and never reads \<open>data.id\<close>.\<close>

definition convertToCoin :: "document \<Rightarrow> fault + coin" where
  "convertToCoin doc =
     (let data = snd doc in
      case (case d_soldDate data of
              Null \<Rightarrow> Inr None
            | Timestamp t \<Rightarrow> Inr (Some t)
            | NotATimestamp \<Rightarrow> Inl TypeError) of
        Inl e \<Rightarrow> Inl e
      | Inr sd \<Rightarrow>
          Inr \<lparr>name = d_name data, image_coin = d_image data,
               acquisitionDate = d_acquisitionDate data,
               purchasePrice = d_purchasePrice data, currentValue = d_currentValue data,
               roi = d_roi data, description = d_description data, grade = d_grade data,
               mint = d_mint data, year = d_year data,
               isSold = (case d_isSold data of Some b \<Rightarrow> b | None \<Rightarrow> False),
               soldPrice = d_soldPrice data, soldDate = sd, id_coin = fst doc\<rparr>)"

text \<open>\<open>docs.map(convertToCoin)\<close>: the first conversion that throws ends the map.\<close>

fun mapConvert :: "document list \<Rightarrow> fault + coin list" where
  "mapConvert [] = Inr []"
| "mapConvert (doc # docs) =
     (case convertToCoin doc of
        Inl e \<Rightarrow> Inl e
      | Inr coin \<Rightarrow> (case mapConvert docs of Inl e \<Rightarrow> Inl e | Inr coins \<Rightarrow> Inr (coin # coins)))"

text \<open>
  \<open>getAllCoins\<close> of the remote strategy: \<open>getDocs\<close> is the outcome of the Firestore call;
  the \<open>catch\<close> clause turns a fault of the \<open>try\<close> block into the empty array.
\<close>

definition getAllCoins_try :: "fault + document list \<Rightarrow> fault + coin list" where
  "getAllCoins_try getDocs =
     (case getDocs of Inl e \<Rightarrow> Inl e | Inr docs \<Rightarrow> mapConvert docs)"

definition getAllCoins_remote :: "fault + document list \<Rightarrow> fault + coin list" where
  "getAllCoins_remote getDocs =
     (case getAllCoins_try getDocs of Inl e \<Rightarrow> Inr [] | Inr coins \<Rightarrow> Inr coins)"

text \<open>
  \<open>addCoin\<close> of the remote strategy: \<open>addDoc_data\<close> is the data handed to \<open>addDoc\<close>, the
  spread of the input (with the \<open>id\<close> property the input may carry) and its sold date
  as a timestamp or \<open>null\<close>. \<open>addDoc\<close> is the outcome of the call, the key of the new
  document when it succeeds. A fault is thrown again by the \<open>catch\<close> clause.
\<close>

definition addDoc_data :: "coin_input \<Rightarrow> doc_data" where
  "addDoc_data coin =
     \<lparr>d_name = name coin, d_image = image_coin coin,
      d_acquisitionDate = acquisitionDate coin, d_purchasePrice = purchasePrice coin,
      d_currentValue = currentValue coin, d_roi = roi coin,
      d_description = description coin, d_grade = grade coin, d_mint = mint coin,
      d_year = year coin, d_isSold = Some (isSold coin), d_soldPrice = soldPrice coin,
      d_soldDate = (case soldDate coin of Some t \<Rightarrow> Timestamp t | None \<Rightarrow> Null),
      d_id = id_carried coin\<rparr>"

definition addCoin_remote :: "fault + string \<Rightarrow> coin_input \<Rightarrow> fault + coin" where
  "addCoin_remote addDoc coin =
     (case addDoc of
        Inl e \<Rightarrow> Inl e
      | Inr docRef_id \<Rightarrow>
          Inr \<lparr>name = name coin, image_coin = image_coin coin,
               acquisitionDate = acquisitionDate coin, purchasePrice = purchasePrice coin,
               currentValue = currentValue coin, roi = roi coin,
               description = description coin, grade = grade coin, mint = mint coin,
               year = year coin, isSold = isSold coin, soldPrice = soldPrice coin,
               soldDate = soldDate coin, id_coin = docRef_id\<rparr>)"

text \<open>
  All fields other than the identifier are the same in two records.
\<close>

definition sameFields :: "'a coin_fields_scheme \<Rightarrow> 'b coin_fields_scheme \<Rightarrow> bool" where
  "sameFields a b \<longleftrightarrow>
     name b = name a \<and> image_coin b = image_coin a
     \<and> acquisitionDate b = acquisitionDate a \<and> purchasePrice b = purchasePrice a
     \<and> currentValue b = currentValue a \<and> roi b = roi a \<and> description b = description a
     \<and> grade b = grade a \<and> mint b = mint a \<and> year b = year a \<and> isSold b = isSold a
     \<and> soldPrice b = soldPrice a \<and> soldDate b = soldDate a"

section \<open>Example data\<close>

text \<open>
  The coin of the spec's scenario, as a stored coin under two identifiers and as an
  input that carries an identifier of the caller's; a store that holds the two coins;
  and the encodings used on concrete inputs: \<open>idsText\<close> writes the identifiers of an
  array, \<open>parseIds\<close> reads such texts back, reads \<open>null\<close>, and fails on any other text.
\<close>

definition morgan :: coin where
  "morgan = \<lparr>name = ''1921 Morgan'', image_coin = ''morgan.png'',
     acquisitionDate = ''2024-01-15'', purchasePrice = 100, currentValue = 150, roi = 50,
     description = None, grade = None, mint = None, year = None, isSold = False,
     soldPrice = None, soldDate = None, id_coin = ''1''\<rparr>"

definition morgan2 :: coin where
  "morgan2 = morgan\<lparr>id_coin := ''2''\<rparr>"

definition morganInput :: coin_input where
  "morganInput = \<lparr>name = ''1921 Morgan'', image_coin = ''morgan.png'',
     acquisitionDate = ''2024-01-15'', purchasePrice = 100, currentValue = 150, roi = 50,
     description = None, grade = None, mint = None, year = None, isSold = False,
     soldPrice = None, soldDate = None, id_carried = Some ''caller''\<rparr>"

definition idsText :: "jsvalue \<Rightarrow> string" where
  "idsText v =
     (case v of
        CoinArray coins \<Rightarrow> concat (map (\<lambda>coin. id_coin coin @ '';'') coins)
      | NotArray t \<Rightarrow> t)"

definition parseIds :: "string \<Rightarrow> jsvalue option" where
  "parseIds text =
     (if text = ''1;2;'' then Some (CoinArray [morgan, morgan2])
      else if text = ''1;'' then Some (CoinArray [morgan])
      else if text = ''2;'' then Some (CoinArray [morgan2])
      else if text = ''null'' then Some (NotArray ''null'')
      else None)"

definition exampleStore :: store where
  "exampleStore = \<lparr>mockDatabase = CoinArray [morgan, morgan2], apex_coins = Some ''1;2;'',
     hasWindow = True, storageDenied = False, calls = [], intervals = [],
     nextInterval = 0\<rparr>"

definition brokenDoc :: document where
  "brokenDoc = (''k1'', (addDoc_data morganInput)\<lparr>d_soldDate := NotATimestamp\<rparr>)"

section \<open>Auxiliary facts\<close>

lemma foldl_add_real:
  "foldl (\<lambda>sum coin. sum + f coin) (a::real) xs = a + sum_list (map f xs)"
  by (induction xs arbitrary: a) simp_all

lemma foldl_jadd_Fin:
  "\<forall>c \<in> set xs. g c = Fin (h c) \<Longrightarrow>
   foldl (\<lambda>sum coin. jadd sum (g coin)) (Fin a) xs = Fin (a + sum_list (map h xs))"
  by (induction xs arbitrary: a) (simp_all add: add.assoc)

lemma truthy_iff: "truthy p \<longleftrightarrow> (\<exists>x. p = Some x \<and> x \<noteq> 0)"
  by (cases p) simp_all

lemma sum_list_nonneg_real:
  "\<forall>x \<in> set xs. 0 \<le> f x \<Longrightarrow> (0::real) \<le> sum_list (map f xs)"
  by (induction xs) simp_all

lemma sum_list_pos_real:
  "xs \<noteq> [] \<Longrightarrow> \<forall>x \<in> set xs. 0 < f x \<Longrightarrow> (0::real) < sum_list (map f xs)"
  by (induction xs) (auto intro: add_pos_nonneg sum_list_nonneg_real less_imp_le)


lemma findIndex_lower: "- 1 \<le> findIndex p xs"
  by (induction xs) (simp_all add: Let_def)

lemma findIndex_none: "findIndex p xs = - 1 \<longleftrightarrow> (\<forall>x \<in> set xs. \<not> p x)"
proof (induction xs)
  case Nil
  show ?case by simp
next
  case (Cons x xs)
  have "findIndex p xs + 1 \<noteq> - 1"
    using findIndex_lower [of p xs] by arith
  with Cons show ?case by (simp add: Let_def)
qed


section \<open>The aggregator in closed form\<close>

text \<open>
  The active ROI is 0 without active coins, the weighted average of the \<open>roi\<close> fields
  when the current values of the active coins do not sum to zero, and no number when
  they do: only the length of the list is tested before the division.
\<close>

lemma activeCoinsROI_cases:
  "activeCoinsROI coins =
    (if activeCoins coins = [] then Fin 0
     else if sum_list (map currentValue (activeCoins coins)) = 0 then NonFinite
     else Fin (sum_list (map (\<lambda>c. roi c * currentValue c) (activeCoins coins))
               / sum_list (map currentValue (activeCoins coins))))"
  by (simp add: activeCoinsROI_def foldl_add_real)

lemma soldCoinsProfit_eq:
  "soldCoinsProfit coins = Fin (sum_list (map profitOf (soldCoins coins)))"
proof -
  have "\<forall>c \<in> set (soldCoins coins).
          jsub (bang (soldPrice c)) (Fin (purchasePrice c)) = Fin (profitOf c)"
    by (auto simp: soldCoins_def profitOf_def truthy_iff)
  from foldl_jadd_Fin [OF this, of 0] show ?thesis
    by (simp add: soldCoinsProfit_def soldCoins_def)
qed

text \<open>
  The total value is the cash reserve, plus the current values of the active coins, plus
  the profits of the coins that are sold at a price other than zero.
\<close>

lemma totalValue_eq:
  "totalValue (Some C) coins =
     Fin (C + sum_list (map currentValue (activeCoins coins))
            + sum_list (map profitOf (soldCoins coins)))"
  by (simp add: totalValue_def soldCoinsProfit_eq activeCoinsValue_def cashOrDefault_def
      foldl_add_real activeCoins_def)

lemma specWeight_split:
  "\<forall>c \<in> set coins. isSold c \<longrightarrow> soldPrice c \<noteq> Some 0 \<Longrightarrow>
   sum_list (map specWeight coins)
     = sum_list (map currentValue (activeCoins coins))
       + sum_list (map purchasePrice (soldCoins coins))"
proof (induction coins)
  case Nil
  show ?case by (simp add: activeCoins_def soldCoins_def)
next
  case (Cons c coins)
  then show ?case
    by (cases "soldPrice c") (auto simp: activeCoins_def soldCoins_def specWeight_def)
qed

lemma roiTimesWeight_split:
  "\<forall>c \<in> set coins. isSold c \<longrightarrow> soldPrice c \<noteq> Some 0 \<Longrightarrow>
   sum_list (map roiTimesWeight coins)
     = sum_list (map (\<lambda>c. roi c * currentValue c) (activeCoins coins))
       + sum_list (map roiTimesWeight (soldCoins coins))"
proof (induction coins)
  case Nil
  show ?case by (simp add: activeCoins_def soldCoins_def)
next
  case (Cons c coins)
  then show ?case
    by (cases "soldPrice c") (auto simp: activeCoins_def soldCoins_def roiTimesWeight_def)
qed

lemma sold_contribution:
  "isSold c \<Longrightarrow> soldPrice c \<noteq> None \<Longrightarrow> purchasePrice c \<noteq> 0 \<Longrightarrow>
   jmul (coinROI c) (Fin (purchasePrice c)) = Fin (roiTimesWeight c)"
  by (auto simp: coinROI_def roiTimesWeight_def)

lemma specContribution_Fin:
  "(isSold c \<Longrightarrow> soldPrice c \<noteq> None \<Longrightarrow> purchasePrice c \<noteq> 0) \<Longrightarrow>
   specContribution c = Fin (roiTimesWeight c)"
  by (auto simp: specContribution_def roiTimesWeight_def coinROI_def)

text \<open>
  Where no division by zero occurs and both partitions agree, the three-level
  composition is the single-pass weighted average: the current values of the active
  coins are not negative and, if there is an active coin, not all zero; every sold coin
  has a positive purchase price and a sold price other than zero.
\<close>

lemma totalROI_single_pass:
  assumes active: "\<forall>c \<in> set coins. \<not> isSold c \<longrightarrow> 0 \<le> currentValue c"
    and sold: "\<forall>c \<in> set coins. isSold c \<longrightarrow> soldPrice c \<noteq> None \<longrightarrow>
                 0 < purchasePrice c \<and> soldPrice c \<noteq> Some 0"
    and valued: "activeCoins coins = [] \<or> 0 < totalActiveValue coins"
  shows "totalROI coins = singlePassROI coins"
    and "totalROI coins =
           (if 0 < sum_list (map specWeight coins)
            then Fin (sum_list (map roiTimesWeight coins) / sum_list (map specWeight coins))
            else Fin 0)"
proof -
  let ?A = "activeCoins coins" and ?S = "soldCoins coins"
  let ?TA = "sum_list (map currentValue ?A)" and ?TS = "sum_list (map purchasePrice ?S)"
  let ?NA = "sum_list (map (\<lambda>c. roi c * currentValue c) ?A)"
  let ?NS = "sum_list (map roiTimesWeight ?S)"
  have nz: "\<forall>c \<in> set coins. isSold c \<longrightarrow> soldPrice c \<noteq> Some 0"
    using sold by auto
  have TA: "totalActiveValue coins = ?TA" and TS: "totalSoldValue coins = ?TS"
    by (simp_all add: totalActiveValue_def totalSoldValue_def foldl_add_real)
  have TA0: "0 \<le> ?TA"
    using active by (intro sum_list_nonneg_real) (simp add: activeCoins_def)
  have Spos: "\<forall>c \<in> set ?S. 0 < purchasePrice c"
    using sold by (auto simp: soldCoins_def truthy_iff)
  have TS0: "0 \<le> ?TS"
    using Spos by (intro sum_list_nonneg_real) (auto intro: less_imp_le)
  have TSpos: "?S \<noteq> [] \<Longrightarrow> 0 < ?TS"
    using Spos by (simp add: sum_list_pos_real)
  have aroi: "jmul (activeCoinsROI coins) (Fin ?TA) = Fin ?NA"
  proof (cases "?A = []")
    case True
    then show ?thesis by (simp add: activeCoinsROI_cases)
  next
    case False
    with valued TA have "0 < ?TA" by simp
    with False show ?thesis by (simp add: activeCoinsROI_cases)
  qed
  have Scontrib:
    "\<forall>c \<in> set ?S. jmul (coinROI c) (Fin (purchasePrice c)) = Fin (roiTimesWeight c)"
  proof
    fix c assume c: "c \<in> set ?S"
    then have "isSold c" "soldPrice c \<noteq> None"
      by (auto simp: soldCoins_def truthy_iff)
    moreover from c Spos have "purchasePrice c \<noteq> 0" by auto
    ultimately show "jmul (coinROI c) (Fin (purchasePrice c)) = Fin (roiTimesWeight c)"
      by (rule sold_contribution)
  qed
  have sroi: "jmul (soldCoinsROI coins) (Fin ?TS) = Fin ?NS"
  proof (cases "?S = []")
    case True
    then show ?thesis by (simp add: soldCoinsROI_def)
  next
    case False
    with TSpos have "0 < ?TS" by simp
    with False foldl_jadd_Fin [OF Scontrib, of 0] show ?thesis
      by (simp add: soldCoinsROI_def foldl_add_real)
  qed
  have W: "sum_list (map specWeight coins) = ?TA + ?TS"
    using nz by (rule specWeight_split)
  have N: "sum_list (map roiTimesWeight coins) = ?NA + ?NS"
    using nz by (rule roiTimesWeight_split)
  have threeLevel:
    "totalROI coins = (if 0 < ?TA + ?TS then Fin ((?NA + ?NS) / (?TA + ?TS)) else Fin 0)"
    unfolding totalROI_def totalInvestmentValue_def TA TS aroi sroi by simp
  show "totalROI coins =
           (if 0 < sum_list (map specWeight coins)
            then Fin (sum_list (map roiTimesWeight coins) / sum_list (map specWeight coins))
            else Fin 0)"
    unfolding threeLevel W N ..
  have contrib: "\<forall>c \<in> set coins. specContribution c = Fin (roiTimesWeight c)"
  proof
    fix c assume "c \<in> set coins"
    with sold have "isSold c \<Longrightarrow> soldPrice c \<noteq> None \<Longrightarrow> purchasePrice c \<noteq> 0" by auto
    then show "specContribution c = Fin (roiTimesWeight c)" by (rule specContribution_Fin)
  qed
  have "singlePassROI coins =
          (if ?TA + ?TS = 0 then Fin 0 else Fin ((?NA + ?NS) / (?TA + ?TS)))"
    using foldl_jadd_Fin [OF contrib, of 0]
    by (simp add: singlePassROI_def foldl_add_real W N)
  with threeLevel TA0 TS0 show "totalROI coins = singlePassROI coins"
    by auto
qed

section \<open>Properties of the aggregator\<close>

text \<open>
  C1. The total ROI of the three-level composition is compared with the single-pass
  weighted average at a portfolio of one active coin of current value 0 and one coin
  bought at 100 and sold at 150. The single pass gives 50. The three-level composition
  first divides the active bucket's zero sum by its zero weight, and its total ROI is no
  number.
\<close>

theorem totalROI_zero_value:
  "totalROI [morgan\<lparr>currentValue := 0\<rparr>, morgan2\<lparr>isSold := True, soldPrice := Some 150\<rparr>]
     = NonFinite
   \<and> singlePassROI [morgan\<lparr>currentValue := 0\<rparr>, morgan2\<lparr>isSold := True, soldPrice := Some 150\<rparr>]
     = Fin 50"
  by (simp add: totalROI_def totalInvestmentValue_def totalActiveValue_def totalSoldValue_def
      activeCoinsROI_def soldCoinsROI_def activeCoins_def soldCoins_def coinROI_def
      singlePassROI_def specWeight_def specContribution_def morgan_def morgan2_def)

text \<open>
  C2. For every cash reserve value, the aggregator applied to the empty coin list gives
  an active ROI of 0, a sold ROI of 0, a total ROI of 0, and a total value equal to the
  cash reserve.
\<close>

theorem empty_portfolio:
  "activeCoinsROI [] = Fin 0 \<and> soldCoinsROI [] = Fin 0 \<and> totalROI [] = Fin 0
   \<and> totalValue (Some C) [] = Fin C"
  by (simp add: activeCoinsROI_def soldCoinsROI_def totalROI_def totalValue_def
      activeCoins_def soldCoins_def totalInvestmentValue_def totalActiveValue_def
      totalSoldValue_def activeCoinsValue_def soldCoinsProfit_def cashOrDefault_def)

text \<open>
  C3. With a single active coin whose current value is 0, the list of active coins is
  not empty and the active ROI is the quotient of zero by zero: it is no number, and
  not 0.
\<close>

theorem activeCoinsROI_zero_value:
  "activeCoins [morgan\<lparr>currentValue := 0\<rparr>] \<noteq> []
   \<and> activeCoinsROI [morgan\<lparr>currentValue := 0\<rparr>] = NonFinite"
  by (simp add: activeCoinsROI_def activeCoins_def morgan_def)

text \<open>
  C4. A coin bought at 100 and sold at the price 0 is left out of the sold coins: with
  a cash reserve of 1000 and this coin alone the total value is 1000, where the sum of
  \<open>soldPrice - purchasePrice\<close> over the sold coins would make it 900.
\<close>

theorem totalValue_sold_for_nothing:
  "soldCoins [morgan\<lparr>isSold := True, soldPrice := Some 0\<rparr>] = []
   \<and> totalValue (Some 1000) [morgan\<lparr>isSold := True, soldPrice := Some 0\<rparr>] = Fin 1000"
  by (simp add: totalValue_def activeCoinsValue_def soldCoinsProfit_def soldCoins_def
      cashOrDefault_def morgan_def)


section \<open>Facts about the local store\<close>

lemma saveToLocalStorage_cases:
  "saveToLocalStorage stringify coins st =
     (if \<not> hasWindow st then (Inr (), st)
      else if storageDenied st then (Inl SecurityError, st)
      else (Inr (), st\<lparr>apex_coins := Some (stringify coins)\<rparr>))"
  by (simp add: saveToLocalStorage_def setItem_def)

lemma initializeDatabase_mockDatabase [simp]:
  "initializeDatabase parse (st\<lparr>mockDatabase := v\<rparr>) = initializeDatabase parse st"
  by (simp add: initializeDatabase_def getItem_def)

lemma initializeDatabase_calls [simp]:
  "initializeDatabase parse (st\<lparr>calls := cs\<rparr>) = initializeDatabase parse st"
  by (simp add: initializeDatabase_def getItem_def)

lemma digitValue_digitChar: "d < 10 \<Longrightarrow> digitValue (digitChar d) = d"
proof -
  assume "d < 10"
  then have "d = 0 \<or> d = 1 \<or> d = 2 \<or> d = 3 \<or> d = 4 \<or> d = 5 \<or> d = 6 \<or> d = 7
      \<or> d = 8 \<or> d = 9"
    by arith
  then show ?thesis
    by (elim disjE) (simp_all add: digitValue_def digitChar_def)
qed

lemma fromString_toString: "fromString (toString n) = n"
proof (induction n rule: toString.induct)
  case (1 n)
  show ?case
  proof (cases "n < 10")
    case True
    then show ?thesis
      by (simp add: toString.simps [of n] fromString_def digitValue_digitChar)
  next
    case False
    with 1 have "fromString (toString (n div 10)) = n div 10" by simp
    with False show ?thesis
      by (simp add: toString.simps [of n] fromString_def digitValue_digitChar)
  qed
qed

lemma toString_inject: "toString m = toString n \<longleftrightarrow> m = n"
proof
  assume "toString m = toString n"
  then have "fromString (toString m) = fromString (toString n)" by simp
  then show "m = n" by (simp add: fromString_toString)
qed simp

lemma pollTick_cases:
  "pollTick stringify parse st =
     (case initializeDatabase parse st of
        Inl e \<Rightarrow> (Inl e, st)
      | Inr stored \<Rightarrow>
          if stringify stored \<noteq> stringify (mockDatabase st)
          then (Inr (), st\<lparr>mockDatabase := stored, calls := calls st @ [stored]\<rparr>)
          else (Inr (), st))"
  by (simp add: pollTick_def Let_def split: sum.splits)

lemma pollTick_again:
  "snd (pollTick stringify parse (snd (pollTick stringify parse st)))
     = snd (pollTick stringify parse st)"
  by (simp add: pollTick_cases split: sum.splits)

text \<open>
  What the local \<open>getAllCoins\<close> does return a list for: an absent key, the empty text,
  a text that does not parse, a missing \<open>window\<close>; and the remote \<open>getAllCoins\<close> never
  throws, a fault of the Firestore call or of a conversion giving the empty list.
\<close>

lemma getAllCoins_empty_cases:
  "\<not> storageDenied st \<Longrightarrow>
   apex_coins st = None \<or> apex_coins st = Some [] \<or> \<not> hasWindow st
     \<or> (\<exists>text. apex_coins st = Some text \<and> parse text = None) \<Longrightarrow>
   fst (getAllCoins parse st) = Inr (CoinArray [])"
  by (auto simp: getAllCoins_def initializeDatabase_def getItem_def)

lemma getAllCoins_remote_never_throws:
  "\<exists>coins. getAllCoins_remote getDocs = Inr coins"
  "getAllCoins_remote (Inl e) = Inr []"
  "mapConvert docs = Inl e \<Longrightarrow> getAllCoins_remote (Inr docs) = Inr []"
  by (auto simp: getAllCoins_remote_def getAllCoins_try_def split: sum.splits)

section \<open>Properties of the collection store\<close>

text \<open>
  C5. On the local strategy, a second deletion of the same identifier has the outcome
  of the first and leaves the state, mirror and storage slot, that the first left. The
  deletion does not fail when the mirror is a coin collection and the storage is
  accessible; and with an identifier that no stored coin has it leaves the collection
  as it is.
\<close>

theorem deleteCoin_idempotent:
  "deleteCoin stringify coinId (snd (deleteCoin stringify coinId st))
     = deleteCoin stringify coinId st
   \<and> (mockDatabase st = CoinArray db \<and> (hasWindow st \<longrightarrow> \<not> storageDenied st) \<longrightarrow>
        fst (deleteCoin stringify coinId st) = Inr ())
   \<and> (mockDatabase st = CoinArray db \<and> (\<forall>coin \<in> set db. id_coin coin \<noteq> coinId) \<longrightarrow>
        mockDatabase (snd (deleteCoin stringify coinId st)) = CoinArray db)"
  by (cases "mockDatabase st")
    (auto simp: deleteCoin_def saveToLocalStorage_cases Let_def)

theorem deleteCoin_idempotent_witness:
  "mockDatabase exampleStore = CoinArray [morgan, morgan2]
   \<and> hasWindow exampleStore \<and> \<not> storageDenied exampleStore
   \<and> id_coin morgan \<noteq> ''3'' \<and> id_coin morgan2 \<noteq> ''3''
   \<and> deleteCoin idsText ''3'' (snd (deleteCoin idsText ''3'' exampleStore))
       = deleteCoin idsText ''3'' exampleStore
   \<and> fst (deleteCoin idsText ''3'' exampleStore) = Inr ()
   \<and> mockDatabase (snd (deleteCoin idsText ''3'' exampleStore)) = CoinArray [morgan, morgan2]"
proof -
  have m: "mockDatabase exampleStore = CoinArray [morgan, morgan2]"
    and w: "hasWindow exampleStore" and a: "\<not> storageDenied exampleStore"
    by (simp_all add: exampleStore_def)
  have h: "\<forall>coin \<in> set [morgan, morgan2]. id_coin coin \<noteq> ''3''"
    by (simp add: morgan_def morgan2_def)
  from m w a h deleteCoin_idempotent [of idsText "''3''" exampleStore "[morgan, morgan2]"]
  show ?thesis
    by (simp add: morgan_def morgan2_def)
qed

text \<open>
  C6. On the local strategy, updating a coin whose identifier no stored coin has leaves
  the whole state unchanged and returns the coin that was passed in, without a fault.
\<close>

theorem updateCoin_unknown_identifier:
  "mockDatabase st = CoinArray db \<Longrightarrow> \<forall>c \<in> set db. id_coin c \<noteq> id_coin coin \<Longrightarrow>
   updateCoin stringify coin st = (Inr coin, st)"
  by (simp add: updateCoin_def findIndex_none)

theorem updateCoin_unknown_identifier_witness:
  "mockDatabase exampleStore = CoinArray [morgan, morgan2]
   \<and> id_coin morgan \<noteq> ''9'' \<and> id_coin morgan2 \<noteq> ''9''
   \<and> updateCoin idsText (morgan\<lparr>id_coin := ''9''\<rparr>) exampleStore
       = (Inr (morgan\<lparr>id_coin := ''9''\<rparr>), exampleStore)"
proof -
  have m: "mockDatabase exampleStore = CoinArray [morgan, morgan2]"
    by (simp add: exampleStore_def)
  have h: "\<forall>c \<in> set [morgan, morgan2]. id_coin c \<noteq> id_coin (morgan\<lparr>id_coin := ''9''\<rparr>)"
    by (simp add: morgan_def morgan2_def)
  from updateCoin_unknown_identifier [OF m h, of idsText] m show ?thesis
    by (simp add: morgan_def morgan2_def)
qed

text \<open>
  C7, as stated, asks for a freshly assigned identifier. On the local strategy the
  identifier is the clock reading: two additions at the same reading return the same
  identifier, and the second coin is stored beside a coin that already has it.
\<close>

theorem addCoin_same_clock:
  "fst (addCoin idsText 42 morganInput exampleStore) = Inr (morgan\<lparr>id_coin := ''42''\<rparr>)
   \<and> fst (addCoin idsText 42 morganInput (snd (addCoin idsText 42 morganInput exampleStore)))
       = Inr (morgan\<lparr>id_coin := ''42''\<rparr>)
   \<and> mockDatabase (snd (addCoin idsText 42 morganInput
         (snd (addCoin idsText 42 morganInput exampleStore))))
       = CoinArray [morgan, morgan2, morgan\<lparr>id_coin := ''42''\<rparr>, morgan\<lparr>id_coin := ''42''\<rparr>]"
proof -
  have clock: "toString 42 = ''42''"
    by (simp add: toString.simps digitChar_def)
  show ?thesis
    by (simp add: clock addCoin_def saveToLocalStorage_cases exampleStore_def Let_def
        morganInput_def morgan_def)
qed

text \<open>
  C7, amended. When the mirror is a coin collection and the storage is accessible, the
  local \<open>addCoin\<close> returns a coin with the clock reading in decimal as its identifier,
  whatever identifier the input carries, and with the other fields of the input; two
  clock readings give the same identifier only if they are the same reading. The
  returned coin is the one appended to the mirror and written to the storage slot. The
  remote \<open>addCoin\<close> returns the input's fields under the key of the new document; the
  data handed to Firestore holds the identifier that the input carried, and the
  document read back under its key is the returned coin. A fault of the Firestore call
  is thrown on.
\<close>

theorem addCoin_assigns_identifier:
  assumes "mockDatabase st = CoinArray db" and "hasWindow st \<longrightarrow> \<not> storageDenied st"
  shows "\<exists>newCoin st'. addCoin stringify now coin st = (Inr newCoin, st')
     \<and> id_coin newCoin = toString now
     \<and> (toString now = toString now' \<longleftrightarrow> now = now')
     \<and> sameFields coin newCoin
     \<and> mockDatabase st' = CoinArray (db @ [newCoin])
     \<and> (hasWindow st \<longrightarrow> apex_coins st' = Some (stringify (CoinArray (db @ [newCoin]))))
     \<and> (\<not> hasWindow st \<longrightarrow> apex_coins st' = apex_coins st)
     \<and> (\<exists>remoteCoin. addCoin_remote (Inr docRef_id) coin = Inr remoteCoin
           \<and> id_coin remoteCoin = docRef_id \<and> sameFields coin remoteCoin
           \<and> convertToCoin (docRef_id, addDoc_data coin) = Inr remoteCoin)
     \<and> d_id (addDoc_data coin) = id_carried coin
     \<and> addCoin_remote (Inl e) coin = Inl e"
  using assms
  by (simp add: addCoin_def saveToLocalStorage_cases sameFields_def Let_def toString_inject
      addCoin_remote_def convertToCoin_def addDoc_data_def split: option.splits)

theorem addCoin_assigns_identifier_witness:
  "mockDatabase exampleStore = CoinArray [morgan, morgan2]
   \<and> hasWindow exampleStore \<and> \<not> storageDenied exampleStore
   \<and> id_carried morganInput = Some ''caller''
   \<and> addCoin idsText 42 morganInput exampleStore
       = (Inr (morgan\<lparr>id_coin := ''42''\<rparr>),
          exampleStore\<lparr>mockDatabase := CoinArray [morgan, morgan2, morgan\<lparr>id_coin := ''42''\<rparr>],
            apex_coins := Some ''1;2;42;''\<rparr>)
   \<and> addCoin_remote (Inr ''doc7'') morganInput = Inr (morgan\<lparr>id_coin := ''doc7''\<rparr>)
   \<and> d_id (addDoc_data morganInput) = Some ''caller''"
proof -
  have m: "mockDatabase exampleStore = CoinArray [morgan, morgan2]"
    and w: "hasWindow exampleStore \<longrightarrow> \<not> storageDenied exampleStore"
    by (simp_all add: exampleStore_def)
  have clock: "toString 42 = ''42''"
    by (simp add: toString.simps digitChar_def)
  from addCoin_assigns_identifier
    [OF m w, of idsText 42 morganInput 7 "''doc7''" StorageFault]
  show ?thesis
    by (simp add: clock addCoin_def addCoin_remote_def addDoc_data_def
        saveToLocalStorage_cases idsText_def exampleStore_def morganInput_def morgan_def
        morgan2_def Let_def)
qed

text \<open>
  C8. The local \<open>getAllCoins\<close> returns what \<open>JSON.parse\<close> gives: with the text \<open>null\<close> in
  the storage slot it returns a value that is no list, and leaves it in the mirror, so
  that a later \<open>deleteCoin\<close> throws. With the storage access denied it throws the fault
  of \<open>getItem\<close>.
\<close>

theorem getAllCoins_not_a_list:
  "getAllCoins parseIds (exampleStore\<lparr>apex_coins := Some ''null''\<rparr>)
     = (Inr (NotArray ''null''),
        exampleStore\<lparr>apex_coins := Some ''null'', mockDatabase := NotArray ''null''\<rparr>)
   \<and> fst (deleteCoin idsText ''1''
         (snd (getAllCoins parseIds (exampleStore\<lparr>apex_coins := Some ''null''\<rparr>))))
       = Inl TypeError
   \<and> fst (getAllCoins parseIds (exampleStore\<lparr>storageDenied := True\<rparr>)) = Inl SecurityError"
  by (simp add: getAllCoins_def initializeDatabase_def getItem_def parseIds_def
      exampleStore_def deleteCoin_def)

text \<open>
  C9. On the local strategy, subscribing invokes the callback exactly once, with the
  mirror, registers the interval timer and returns its identifier; nothing else
  changes. A polling step reads the stored collection. If its serialized form differs
  from that of the mirror, the step makes it the mirror and invokes the callback once
  with it; if not, or if the read throws, the step changes nothing. The mirror is thus
  the last value seen: a second step over an unchanged storage slot leaves the state as
  the first left it, with no further invocation. Each time the interval of the
  registered timer elapses, this step runs; once the handle is unsubscribed it runs no
  more.
\<close>

theorem subscribe_then_poll:
  "subscribeToCoinsUpdates st
     = (nextInterval st,
        st\<lparr>calls := calls st @ [mockDatabase st],
           intervals := nextInterval st # intervals st,
           nextInterval := Suc (nextInterval st)\<rparr>)
   \<and> (initializeDatabase parse st = Inr stored
        \<and> stringify stored \<noteq> stringify (mockDatabase st) \<longrightarrow>
        pollTick stringify parse st
          = (Inr (), st\<lparr>mockDatabase := stored, calls := calls st @ [stored]\<rparr>))
   \<and> (initializeDatabase parse st = Inr stored
        \<and> stringify stored = stringify (mockDatabase st) \<longrightarrow>
        pollTick stringify parse st = (Inr (), st))
   \<and> (initializeDatabase parse st = Inl e \<longrightarrow> pollTick stringify parse st = (Inl e, st))
   \<and> (calls (snd (pollTick stringify parse st)) \<noteq> calls st \<longrightarrow>
        (\<exists>seen. initializeDatabase parse st = Inr seen
           \<and> stringify seen \<noteq> stringify (mockDatabase st)
           \<and> mockDatabase (snd (pollTick stringify parse st)) = seen))
   \<and> snd (pollTick stringify parse (snd (pollTick stringify parse st)))
       = snd (pollTick stringify parse st)
   \<and> intervalElapsed stringify parse (fst (subscribeToCoinsUpdates st))
        (snd (subscribeToCoinsUpdates st))
       = snd (pollTick stringify parse (snd (subscribeToCoinsUpdates st)))
   \<and> intervalElapsed stringify parse intervalId (unsubscribeFromCoinsUpdates intervalId st)
       = unsubscribeFromCoinsUpdates intervalId st"
proof -
  have sub: "subscribeToCoinsUpdates st
     = (nextInterval st,
        st\<lparr>calls := calls st @ [mockDatabase st],
           intervals := nextInterval st # intervals st,
           nextInterval := Suc (nextInterval st)\<rparr>)"
    by (simp add: subscribeToCoinsUpdates_def Let_def)
  have fired: "calls (snd (pollTick stringify parse st)) \<noteq> calls st \<longrightarrow>
        (\<exists>seen. initializeDatabase parse st = Inr seen
           \<and> stringify seen \<noteq> stringify (mockDatabase st)
           \<and> mockDatabase (snd (pollTick stringify parse st)) = seen)"
    by (simp add: pollTick_cases split: sum.splits)
  have timer: "intervalElapsed stringify parse (fst (subscribeToCoinsUpdates st))
        (snd (subscribeToCoinsUpdates st))
       = snd (pollTick stringify parse (snd (subscribeToCoinsUpdates st)))"
    by (simp add: sub intervalElapsed_def)
  have cleared:
    "intervalElapsed stringify parse intervalId (unsubscribeFromCoinsUpdates intervalId st)
       = unsubscribeFromCoinsUpdates intervalId st"
    by (simp add: intervalElapsed_def unsubscribeFromCoinsUpdates_def)
  show ?thesis
    using sub fired timer cleared pollTick_again [of stringify parse st]
    by (simp add: pollTick_cases)
qed

theorem subscribe_then_poll_witness:
  "subscribeToCoinsUpdates exampleStore
     = (0, exampleStore\<lparr>calls := [CoinArray [morgan, morgan2]], intervals := [0],
             nextInterval := 1\<rparr>)
   \<and> initializeDatabase parseIds (exampleStore\<lparr>apex_coins := Some ''1;''\<rparr>)
       = Inr (CoinArray [morgan])
   \<and> idsText (CoinArray [morgan]) \<noteq> idsText (mockDatabase (exampleStore\<lparr>apex_coins := Some ''1;''\<rparr>))
   \<and> pollTick idsText parseIds (exampleStore\<lparr>apex_coins := Some ''1;''\<rparr>)
       = (Inr (), exampleStore\<lparr>apex_coins := Some ''1;'', mockDatabase := CoinArray [morgan],
                    calls := [CoinArray [morgan]]\<rparr>)
   \<and> snd (pollTick idsText parseIds
        (snd (pollTick idsText parseIds (exampleStore\<lparr>apex_coins := Some ''1;''\<rparr>))))
       = exampleStore\<lparr>apex_coins := Some ''1;'', mockDatabase := CoinArray [morgan],
           calls := [CoinArray [morgan]]\<rparr>
   \<and> initializeDatabase parseIds exampleStore = Inr (CoinArray [morgan, morgan2])
   \<and> pollTick idsText parseIds exampleStore = (Inr (), exampleStore)
   \<and> initializeDatabase parseIds (exampleStore\<lparr>storageDenied := True\<rparr>) = Inl SecurityError
   \<and> pollTick idsText parseIds (exampleStore\<lparr>storageDenied := True\<rparr>)
       = (Inl SecurityError, exampleStore\<lparr>storageDenied := True\<rparr>)"
proof -
  let ?changed = "exampleStore\<lparr>apex_coins := Some ''1;''\<rparr>"
  let ?denied = "exampleStore\<lparr>storageDenied := True\<rparr>"
  have stored: "initializeDatabase parseIds ?changed = Inr (CoinArray [morgan])"
    by (simp add: initializeDatabase_def getItem_def parseIds_def exampleStore_def)
  have differs: "idsText (CoinArray [morgan]) \<noteq> idsText (mockDatabase ?changed)"
    by (simp add: idsText_def exampleStore_def morgan_def morgan2_def)
  have same: "initializeDatabase parseIds exampleStore = Inr (CoinArray [morgan, morgan2])"
    "idsText (CoinArray [morgan, morgan2]) = idsText (mockDatabase exampleStore)"
    by (simp_all add: initializeDatabase_def getItem_def parseIds_def exampleStore_def)
  have denied: "initializeDatabase parseIds ?denied = Inl SecurityError"
    by (simp add: initializeDatabase_def getItem_def exampleStore_def)
  have start: "calls exampleStore = []" "nextInterval exampleStore = 0"
    "intervals exampleStore = []" "mockDatabase exampleStore = CoinArray [morgan, morgan2]"
    by (simp_all add: exampleStore_def)
  from stored differs
    subscribe_then_poll [of ?changed parseIds "CoinArray [morgan]" idsText SecurityError 0]
  have tick: "pollTick idsText parseIds ?changed
       = (Inr (), ?changed\<lparr>mockDatabase := CoinArray [morgan], calls := [CoinArray [morgan]]\<rparr>)"
    by (simp add: start)
  have again: "snd (pollTick idsText parseIds (snd (pollTick idsText parseIds ?changed)))
       = ?changed\<lparr>mockDatabase := CoinArray [morgan], calls := [CoinArray [morgan]]\<rparr>"
    using pollTick_again [of idsText parseIds ?changed] by (simp add: tick)
  from same
    subscribe_then_poll [of exampleStore parseIds "CoinArray [morgan, morgan2]" idsText
      SecurityError 0]
  have quiet: "pollTick idsText parseIds exampleStore = (Inr (), exampleStore)"
    and sub: "subscribeToCoinsUpdates exampleStore
     = (0, exampleStore\<lparr>calls := [CoinArray [morgan, morgan2]], intervals := [0],
             nextInterval := 1\<rparr>)"
    by (simp_all add: start)
  from denied
    subscribe_then_poll [of ?denied parseIds "CoinArray []" idsText SecurityError 0]
  have thrown: "pollTick idsText parseIds ?denied = (Inl SecurityError, ?denied)"
    by simp
  from stored differs tick again same quiet sub denied thrown show ?thesis
    by simp
qed

text \<open>
  C10. On the local strategy, \<open>deleteCoin\<close> applied to a coin collection removes the coins
  that have the given identifier and no other: the coins with a different identifier are
  the same before and after, in the same order; no coin of the result has the
  identifier; the result is a subsequence of the collection before. With the storage
  accessible nothing but the mirror and the storage slot changes, and the slot holds the
  serialized result, so that a \<open>getAllCoins\<close> that follows returns the result whenever
  the serialized result parses back to it. Without \<open>window\<close> only the mirror changes.
  With the storage access denied the mirror changes, the slot does not, and the fault
  is thrown.
\<close>

theorem deleteCoin_frame:
  assumes "mockDatabase st = CoinArray db"
  shows "\<exists>db'. mockDatabase (snd (deleteCoin stringify coinId st)) = CoinArray db'
     \<and> filter (\<lambda>coin. id_coin coin \<noteq> coinId) db' = filter (\<lambda>coin. id_coin coin \<noteq> coinId) db
     \<and> (\<forall>coin \<in> set db'. id_coin coin \<noteq> coinId)
     \<and> subseq db' db
     \<and> (hasWindow st \<and> \<not> storageDenied st \<longrightarrow>
          deleteCoin stringify coinId st
            = (Inr (), st\<lparr>mockDatabase := CoinArray db',
                          apex_coins := Some (stringify (CoinArray db'))\<rparr>))
     \<and> (\<not> hasWindow st \<longrightarrow>
          deleteCoin stringify coinId st = (Inr (), st\<lparr>mockDatabase := CoinArray db'\<rparr>))
     \<and> (hasWindow st \<and> storageDenied st \<longrightarrow>
          deleteCoin stringify coinId st
            = (Inl SecurityError, st\<lparr>mockDatabase := CoinArray db'\<rparr>))
     \<and> (hasWindow st \<and> \<not> storageDenied st \<and> stringify (CoinArray db') \<noteq> []
          \<and> parse (stringify (CoinArray db')) = Some (CoinArray db') \<longrightarrow>
          fst (getAllCoins parse (snd (deleteCoin stringify coinId st))) = Inr (CoinArray db'))"
  using assms
  by (simp add: deleteCoin_def saveToLocalStorage_cases Let_def getAllCoins_def
      initializeDatabase_def getItem_def)

theorem deleteCoin_frame_witness:
  "mockDatabase exampleStore = CoinArray [morgan, morgan2]
   \<and> hasWindow exampleStore \<and> \<not> storageDenied exampleStore
   \<and> deleteCoin idsText ''1'' exampleStore
       = (Inr (), exampleStore\<lparr>mockDatabase := CoinArray [morgan2], apex_coins := Some ''2;''\<rparr>)
   \<and> id_coin morgan2 \<noteq> ''1''
   \<and> parseIds (idsText (CoinArray [morgan2])) = Some (CoinArray [morgan2])
   \<and> fst (getAllCoins parseIds (snd (deleteCoin idsText ''1'' exampleStore)))
       = Inr (CoinArray [morgan2])"
proof -
  have m: "mockDatabase exampleStore = CoinArray [morgan, morgan2]"
    and w: "hasWindow exampleStore" and a: "\<not> storageDenied exampleStore"
    by (simp_all add: exampleStore_def)
  have kept: "mockDatabase (snd (deleteCoin idsText ''1'' exampleStore)) = CoinArray [morgan2]"
    by (simp add: deleteCoin_def saveToLocalStorage_cases exampleStore_def morgan_def
        morgan2_def Let_def)
  have enc: "idsText (CoinArray [morgan2]) = ''2;''"
    by (simp add: idsText_def morgan_def morgan2_def)
  have dec: "parseIds ''2;'' = Some (CoinArray [morgan2])"
    by (simp add: parseIds_def)
  from deleteCoin_frame [OF m, of idsText "''1''" parseIds] kept w a enc dec
  show ?thesis
    by (auto simp: m morgan_def morgan2_def)
qed

end
